theory Spec2Isabelle
  imports Main
begin

section \<open>Data model\<close>

text \<open>
  The two enums and the two tables of the schema. The columns the store fills in by
  itself (the autoincremented \<open>id\<close> of an entry, \<open>createdAt\<close>, \<open>updatedAt\<close>) are left
  out: the posting code never reads or writes them. An account is found by its \<open>id\<close>,
  which is the key of the account table below. The posting code does no arithmetic of
  its own: it hands the numbers of the request to the store. The numbers of a request
  are integers here; a number with a fraction is outside this model. The range of the
  schema's \<open>Int\<close> columns is checked by the store (\<open>fits_Int\<close> below).
\<close>

datatype AccountType = ASSET | LIABILITY

datatype DebitCredit = DEBIT | CREDIT

record Account =
  account_name :: "string option"
  account_accountType :: AccountType
  account_balance :: int

record Entry =
  entry_transactionId :: int
  entry_name :: "string option"
  entry_description :: "string option"
  entry_debitCredit :: DebitCredit
  entry_amount :: int
  entry_accountId :: int

text \<open>
  At run time the members of a generated enum are the strings of their names, and the
  request body is parsed JSON that nothing checks against the interface
  \<open>LedgerEntry\<close>. The enum-typed fields of a request are therefore strings here, and
  the comparisons of the code are comparisons with these constants.
\<close>

definition AccountType_ASSET :: string where
  "AccountType_ASSET = ''ASSET''"

definition AccountType_LIABILITY :: string where
  "AccountType_LIABILITY = ''LIABILITY''"

definition DebitCredit_DEBIT :: string where
  "DebitCredit_DEBIT = ''DEBIT''"

definition DebitCredit_CREDIT :: string where
  "DebitCredit_CREDIT = ''CREDIT''"

record LedgerEntry =
  transactionId :: int
  amount :: int
  accountId :: int
  debitCredit :: string
  name :: string
  accountType :: string

text \<open>
  The body of a request. \<open>ledgerEntries\<close> may be missing, which is \<open>None\<close>.
\<close>

record TransactionBody =
  body_name :: string
  body_description :: string
  body_ledgerEntries :: "LedgerEntry list option"

section \<open>The ledger store\<close>

text \<open>
  Modelled from the spec: the client object \<open>prisma\<close> of \<open>lib/prisma\<close> and the
  database behind it are not part of the sources. The definitions of this section
  (\<open>Store\<close>, \<open>fits_Int\<close>, \<open>fits_BalanceOp\<close>, \<open>apply_BalanceOp\<close>, \<open>DebitCredit_of\<close>,
  \<open>exec_op\<close>, \<open>exec_ops\<close> and \<open>transaction\<close>) follow the contract of the Ledger
  Store: a balance is adjusted by an atomic increment or decrement, and a batch of
  operations runs in order and is committed as a whole or not at all. The checks on a
  new entry are those of the schema: \<open>debitCredit\<close> is an enum column, so the value
  must be one of its members; \<open>transactionId\<close>, \<open>amount\<close>, \<open>accountId\<close> and
  \<open>balance\<close> are \<open>Int\<close> columns of a \<open>postgresql\<close> database, signed integers of
  32 bits, so a value outside their range is refused; and \<open>accountId\<close> references
  an account, which must exist. The columns that the operation is not given
  (\<open>description\<close>) are null. An update addresses an account by its id, which must
  exist; a field whose value is \<open>undefined\<close> is left out of the update, so the
  balance stays as it is.

  The store can also fail for a reason that lies outside the request: a conflict with
  a concurrent commit or a failure of the storage (\<open>ConflictError\<close> and
  \<open>StorageError\<close> of the spec). The field \<open>fault\<close> is the failure, if any, that the
  store meets when it commits the batch of the call; such a failure leaves nothing of
  the batch behind.
\<close>

datatype StoreError =
  PrismaClientValidationError
  | ValueOutOfRange
  | ForeignKeyConstraintFailed
  | RecordNotFound
  | ConflictError
  | StorageError

record Store =
  accounts :: "int \<rightharpoonup> Account"
  entries :: "Entry list"
  fault :: "StoreError option"

text \<open>
  The value of \<open>data.balance\<close> in an update: \<open>{ increment: n }\<close> or
  \<open>{ decrement: n }\<close>. The operations the posting code builds:
  \<open>EntryCreate transactionId name debitCredit amount accountId\<close> is
  \<open>prisma.entry.create\<close> with these five fields as \<open>data\<close>, and
  \<open>AccountUpdate balance id\<close> is \<open>prisma.account.update\<close> with \<open>data.balance\<close>
  and \<open>where.id\<close>.
\<close>

datatype BalanceOp = increment int | decrement int

datatype PrismaOp =
  EntryCreate int string string int int
  | AccountUpdate "BalanceOp option" int

datatype OpResult = EntryRow Entry | AccountRow Account

text \<open>
  Modelled from the spec: the range of an \<open>Int\<close> column, and the check of the number
  that an adjustment carries.
\<close>

definition fits_Int :: "int \<Rightarrow> bool" where
  "fits_Int n \<longleftrightarrow> - 2147483648 \<le> n \<and> n \<le> 2147483647"

fun fits_BalanceOp :: "BalanceOp option \<Rightarrow> bool" where
  "fits_BalanceOp None = True"
| "fits_BalanceOp (Some (increment n)) = fits_Int n"
| "fits_BalanceOp (Some (decrement n)) = fits_Int n"

text \<open>
  Modelled from the spec: the atomic increment and decrement of a balance at the store.
  An update that is given no adjustment (\<open>None\<close>) leaves the balance as it is.
\<close>

fun apply_BalanceOp :: "BalanceOp option \<Rightarrow> int \<Rightarrow> int" where
  "apply_BalanceOp None b = b"
| "apply_BalanceOp (Some (increment n)) b = b + n"
| "apply_BalanceOp (Some (decrement n)) b = b - n"

text \<open>
  The members of the enum \<open>DebitCredit\<close> of the schema, read from their names.
\<close>

definition DebitCredit_of :: "string \<Rightarrow> DebitCredit option" where
  "DebitCredit_of v =
     (if v = DebitCredit_DEBIT then Some DEBIT
      else if v = DebitCredit_CREDIT then Some CREDIT
      else None)"

text \<open>
  Modelled from the spec: the two operations of the store that the posting code uses,
  \<open>entry.create\<close> and \<open>account.update\<close> of the client of \<open>lib/prisma\<close>. Each
  returns the row it wrote, or fails: on a direction that is not a member of the enum,
  on a number outside the range of its column (also the balance that an update would
  leave), on an account that does not exist.
\<close>

fun exec_op :: "Store \<Rightarrow> PrismaOp \<Rightarrow> StoreError + (Store \<times> OpResult)" where
  "exec_op s (EntryCreate tid nm dc amt aid) =
     (case DebitCredit_of dc of
        None \<Rightarrow> Inl PrismaClientValidationError
      | Some d \<Rightarrow>
          if \<not> (fits_Int tid \<and> fits_Int amt \<and> fits_Int aid) then Inl ValueOutOfRange
          else
            (case accounts s aid of
               None \<Rightarrow> Inl ForeignKeyConstraintFailed
             | Some a \<Rightarrow>
                 (let row = \<lparr>entry_transactionId = tid, entry_name = Some nm,
                             entry_description = None, entry_debitCredit = d,
                             entry_amount = amt, entry_accountId = aid\<rparr>
                  in Inr (s\<lparr>entries := entries s @ [row]\<rparr>, EntryRow row))))"
| "exec_op s (AccountUpdate opn aid) =
     (if \<not> (fits_Int aid \<and> fits_BalanceOp opn) then Inl ValueOutOfRange
      else
        (case accounts s aid of
           None \<Rightarrow> Inl RecordNotFound
         | Some a \<Rightarrow>
             (let a' = a\<lparr>account_balance := apply_BalanceOp opn (account_balance a)\<rparr>
              in if \<not> fits_Int (account_balance a') then Inl ValueOutOfRange
                 else Inr (s\<lparr>accounts := (accounts s)(aid \<mapsto> a')\<rparr>, AccountRow a'))))"

text \<open>
  Modelled from the spec: \<open>prisma.$transaction\<close> of the client of \<open>lib/prisma\<close>, the
  commit of a batch as a single all-or-nothing unit. \<open>exec_ops\<close> runs the operations
  in order and stops at the first failure; \<open>transaction\<close> keeps the store it was
  given when an operation has failed or when the commit meets the \<open>fault\<close> of the
  store.
\<close>

fun exec_ops :: "Store \<Rightarrow> PrismaOp list \<Rightarrow> StoreError + (Store \<times> OpResult list)" where
  "exec_ops s [] = Inr (s, [])"
| "exec_ops s (x # xs) =
     (case exec_op s x of
        Inl e \<Rightarrow> Inl e
      | Inr (s', r) \<Rightarrow>
          (case exec_ops s' xs of
             Inl e \<Rightarrow> Inl e
           | Inr (s'', rs) \<Rightarrow> Inr (s'', r # rs)))"

definition transaction :: "Store \<Rightarrow> PrismaOp list \<Rightarrow> Store \<times> (StoreError + OpResult list)" where
  "transaction s ops =
     (case exec_ops s ops of
        Inl e \<Rightarrow> (s, Inl e)
      | Inr (s', rs) \<Rightarrow>
          (case fault s of
             Some e \<Rightarrow> (s, Inl e)
           | None \<Rightarrow> (s', Inr rs)))"

section \<open>The posting code\<close>

text \<open>
  \<open>getAccountDirection\<close> has no branch for an account type that is neither of the two
  constants: the function then ends without a \<open>return\<close>, and its value is
  \<open>undefined\<close>, which is \<open>None\<close> here.
\<close>

definition getAccountDirection :: "string \<Rightarrow> string \<Rightarrow> int \<Rightarrow> BalanceOp option" where
  "getAccountDirection accountType' debitCredit' amount' =
     (if accountType' = AccountType_ASSET then
        Some (if debitCredit' = DebitCredit_DEBIT then increment amount' else decrement amount')
      else if accountType' = AccountType_LIABILITY then
        Some (if debitCredit' = DebitCredit_CREDIT then increment amount' else decrement amount')
      else None)"

definition createEntryTransactions :: "LedgerEntry \<Rightarrow> PrismaOp list" where
  "createEntryTransactions entry =
     (let createTransactionOperation =
            EntryCreate (transactionId entry) (name entry) (debitCredit entry)
              (amount entry) (accountId entry);
          updateAccountOperation =
            AccountUpdate
              (getAccountDirection (accountType entry) (debitCredit entry) (amount entry))
              (accountId entry)
      in [createTransactionOperation, updateAccountOperation])"

text \<open>
  The response of the handler: status 201 with the results of the batch, or the
  rejection of the store, which the handler does not catch.
\<close>

datatype Response = Created "OpResult list" | Unhandled StoreError

definition pendingTransactionOperations :: "TransactionBody \<Rightarrow> PrismaOp list" where
  "pendingTransactionOperations body =
     (let ledgerEntries = (case body_ledgerEntries body of None \<Rightarrow> [] | Some es \<Rightarrow> es)
      in concat (map createEntryTransactions ledgerEntries))"

definition handlePOST :: "Store \<Rightarrow> TransactionBody \<Rightarrow> Store \<times> Response" where
  "handlePOST s body =
     (case transaction s (pendingTransactionOperations body) of
        (s', Inl e) \<Rightarrow> (s', Unhandled e)
      | (s', Inr result) \<Rightarrow> (s', Created result))"

section \<open>Vocabulary for the results of a posting\<close>

text \<open>
  The definitions of this section are not code of the repository; they name what the
  theorems speak about. \<open>drafts\<close> is the list the handler iterates over.
  \<open>delta_of\<close> is the signed change that the operation built for one entry makes to a
  balance, \<open>net_delta\<close> the sum of these changes over the entries of a batch that
  target one account. \<open>Entry_of\<close> is the row the store writes for an entry.
  It is \<open>None\<close> for an entry whose direction the store refuses. \<open>posted\<close> is the store after
  every entry of a batch has been applied. \<open>retype\<close> changes the stored types of the
  accounts and nothing else. \<open>updates_of\<close> selects the balance updates of one account
  from a list of operations.
  \<open>debit_sum\<close> and \<open>credit_sum\<close> are the sums of the amounts of the entries of a
  batch whose direction is \<open>DEBIT\<close>, respectively \<open>CREDIT\<close>. \<open>is_Created\<close> holds of
  the response with status 201, and \<open>balance_of\<close> reads the balance of an account.
\<close>

definition drafts :: "TransactionBody \<Rightarrow> LedgerEntry list" where
  "drafts body = (case body_ledgerEntries body of None \<Rightarrow> [] | Some es \<Rightarrow> es)"

fun is_Created :: "Response \<Rightarrow> bool" where
  "is_Created (Created rs) = True"
| "is_Created (Unhandled e) = False"

definition balance_of :: "Store \<Rightarrow> int \<Rightarrow> int option" where
  "balance_of s i = map_option account_balance (accounts s i)"

fun signed_delta :: "BalanceOp option \<Rightarrow> int" where
  "signed_delta None = 0"
| "signed_delta (Some (increment n)) = n"
| "signed_delta (Some (decrement n)) = - n"

definition delta_of :: "LedgerEntry \<Rightarrow> int" where
  "delta_of e = signed_delta (getAccountDirection (accountType e) (debitCredit e) (amount e))"

definition net_delta :: "int \<Rightarrow> LedgerEntry list \<Rightarrow> int" where
  "net_delta i es = sum_list (map delta_of (filter (\<lambda>e. accountId e = i) es))"

definition Entry_of :: "LedgerEntry \<Rightarrow> Entry option" where
  "Entry_of e =
     map_option
       (\<lambda>d. \<lparr>entry_transactionId = transactionId e, entry_name = Some (name e),
             entry_description = None, entry_debitCredit = d,
             entry_amount = amount e, entry_accountId = accountId e\<rparr>)
       (DebitCredit_of (debitCredit e))"

definition adjust :: "int \<Rightarrow> Account \<Rightarrow> Account" where
  "adjust d a = a\<lparr>account_balance := account_balance a + d\<rparr>"

definition posted :: "Store \<Rightarrow> LedgerEntry list \<Rightarrow> Store" where
  "posted s es =
     s\<lparr>accounts := (\<lambda>i. map_option (adjust (net_delta i es)) (accounts s i)),
       entries := entries s @ List.map_filter Entry_of es\<rparr>"

definition debit_sum :: "LedgerEntry list \<Rightarrow> int" where
  "debit_sum es = sum_list (map amount (filter (\<lambda>e. debitCredit e = DebitCredit_DEBIT) es))"

definition credit_sum :: "LedgerEntry list \<Rightarrow> int" where
  "credit_sum es = sum_list (map amount (filter (\<lambda>e. debitCredit e = DebitCredit_CREDIT) es))"

definition retype :: "(int \<Rightarrow> AccountType \<Rightarrow> AccountType) \<Rightarrow> Store \<Rightarrow> Store" where
  "retype f s =
     s\<lparr>accounts :=
         (\<lambda>i. map_option (\<lambda>a. a\<lparr>account_accountType := f i (account_accountType a)\<rparr>)
                (accounts s i))\<rparr>"

fun updates_of :: "int \<Rightarrow> PrismaOp list \<Rightarrow> PrismaOp list" where
  "updates_of i [] = []"
| "updates_of i (EntryCreate tid nm dc amt aid # ops) = updates_of i ops"
| "updates_of i (AccountUpdate opn aid # ops) =
     (if aid = i then AccountUpdate opn aid # updates_of i ops else updates_of i ops)"

section \<open>Example data\<close>

text \<open>
  The four accounts and the request of the worked example of the README, the rows the
  example creates, and further requests against the same accounts: one whose debits and
  credits differ, one with a single entry, the README request with another account type
  for its first entry, one with two entries for one account, one with an account type
  outside the enum, one with zero amounts, one that names an account that does not
  exist, and a debit and a credit to the liability account that the request calls an
  asset account.
\<close>

definition ex_store :: Store where
  "ex_store =
     \<lparr>accounts = map_of
        [(110472, \<lparr>account_name = Some ''Credit Card'', account_accountType = LIABILITY,
                   account_balance = 20000\<rparr>),
         (129301, \<lparr>account_name = Some ''Checkings'', account_accountType = ASSET,
                   account_balance = 20000\<rparr>),
         (190428, \<lparr>account_name = Some ''Savings'', account_accountType = ASSET,
                   account_balance = 20000\<rparr>),
         (294329, \<lparr>account_name = Some ''Checkings'', account_accountType = ASSET,
                   account_balance = 20000\<rparr>)],
      entries = [], fault = None\<rparr>"

definition ex_entry :: "int \<Rightarrow> string \<Rightarrow> string \<Rightarrow> int \<Rightarrow> LedgerEntry" where
  "ex_entry aid ty dc amt =
     \<lparr>transactionId = 1172, amount = amt, accountId = aid, debitCredit = dc,
      name = ''Some ledger entry'', accountType = ty\<rparr>"

definition ex_request :: "LedgerEntry list \<Rightarrow> TransactionBody" where
  "ex_request es =
     \<lparr>body_name = ''Grocery transaction'', body_description = ''Lots of groceries'',
      body_ledgerEntries = Some es\<rparr>"

definition ex_body :: TransactionBody where
  "ex_body = ex_request [ex_entry 294329 ''ASSET'' ''DEBIT'' 1234,
                         ex_entry 190428 ''ASSET'' ''CREDIT'' 1234]"

definition ex_row :: "int \<Rightarrow> DebitCredit \<Rightarrow> int \<Rightarrow> Entry" where
  "ex_row aid d amt =
     \<lparr>entry_transactionId = 1172, entry_name = Some ''Some ledger entry'',
      entry_description = None, entry_debitCredit = d, entry_amount = amt,
      entry_accountId = aid\<rparr>"

definition ex_unbalanced :: TransactionBody where
  "ex_unbalanced = ex_request [ex_entry 294329 ''ASSET'' ''DEBIT'' 100,
                               ex_entry 190428 ''ASSET'' ''CREDIT'' 50]"

definition ex_single :: TransactionBody where
  "ex_single = ex_request [ex_entry 110472 ''LIABILITY'' ''CREDIT'' 500]"

definition ex_retyped :: TransactionBody where
  "ex_retyped = ex_request [ex_entry 294329 ''LIABILITY'' ''DEBIT'' 1234,
                            ex_entry 190428 ''ASSET'' ''CREDIT'' 1234]"

definition ex_same_account :: TransactionBody where
  "ex_same_account = ex_request [ex_entry 294329 ''ASSET'' ''DEBIT'' 100,
                                 ex_entry 294329 ''ASSET'' ''DEBIT'' 50,
                                 ex_entry 190428 ''ASSET'' ''CREDIT'' 150]"

definition ex_equity :: TransactionBody where
  "ex_equity = ex_request [ex_entry 294329 ''EQUITY'' ''DEBIT'' 100,
                           ex_entry 190428 ''ASSET'' ''CREDIT'' 100]"

definition ex_zero :: TransactionBody where
  "ex_zero = ex_request [ex_entry 294329 ''ASSET'' ''DEBIT'' 0,
                         ex_entry 190428 ''ASSET'' ''CREDIT'' 0]"


definition ex_unknown_account :: TransactionBody where
  "ex_unknown_account = ex_request [ex_entry 294329 ''ASSET'' ''DEBIT'' 100,
                                    ex_entry 999 ''ASSET'' ''CREDIT'' 50]"

definition ex_debit_liability_as_asset :: TransactionBody where
  "ex_debit_liability_as_asset = ex_request [ex_entry 110472 ''ASSET'' ''DEBIT'' 500]"

definition ex_credit_liability_as_asset :: TransactionBody where
  "ex_credit_liability_as_asset = ex_request [ex_entry 110472 ''ASSET'' ''CREDIT'' 500]"

section \<open>How the store runs the operations of a posting\<close>

lemma pending_drafts:
  "pendingTransactionOperations b = concat (map createEntryTransactions (drafts b))"
  by (simp add: pendingTransactionOperations_def drafts_def)

lemma apply_signed: "apply_BalanceOp opn b = b + signed_delta opn"
  by (cases opn rule: signed_delta.cases) simp_all

lemma net_delta_Nil: "net_delta i [] = 0"
  by (simp add: net_delta_def)

lemma net_delta_Cons:
  "net_delta i (e # es) = (if accountId e = i then delta_of e else 0) + net_delta i es"
  by (simp add: net_delta_def)

lemma adjust_0: "adjust 0 a = a"
  by (simp add: adjust_def)

lemma adjust_adjust: "adjust d (adjust c a) = adjust (c + d) a"
  by (simp add: adjust_def)

lemma posted_Nil: "posted s [] = s"
proof -
  have "adjust 0 = (\<lambda>a. a)"
    by (simp add: fun_eq_iff adjust_0)
  then show ?thesis
    by (simp add: posted_def net_delta_Nil option.map_ident)
qed

lemma exec_one:
  assumes "exec_ops s (createEntryTransactions e @ ops) = Inr (s', rs)"
  shows "\<exists>row a rs'. Entry_of e = Some row \<and> accounts s (accountId e) = Some a
      \<and> exec_ops
           (s\<lparr>entries := entries s @ [row],
              accounts := (accounts s)(accountId e \<mapsto> adjust (delta_of e) a)\<rparr>)
           ops = Inr (s', rs')"
  using assms
  by (auto simp: createEntryTransactions_def Entry_of_def delta_of_def adjust_def
      apply_signed Let_def split: option.splits sum.splits if_splits)

lemma posted_step:
  assumes row: "Entry_of e = Some row" and a: "accounts s (accountId e) = Some a"
  shows "posted (s\<lparr>entries := entries s @ [row],
                   accounts := (accounts s)(accountId e \<mapsto> adjust (delta_of e) a)\<rparr>) es
         = posted s (e # es)"
proof -
  have "(\<lambda>i. map_option (adjust (net_delta i es))
              (((accounts s)(accountId e \<mapsto> adjust (delta_of e) a)) i))
        = (\<lambda>i. map_option (adjust (net_delta i (e # es))) (accounts s i))"
    using a by (auto simp: fun_eq_iff net_delta_Cons adjust_adjust)
  then show ?thesis
    using row by (simp add: posted_def)
qed

lemma exec_pending:
  "exec_ops s (concat (map createEntryTransactions es)) = Inr (s', rs) \<Longrightarrow>
   s' = posted s es \<and> map Some (List.map_filter Entry_of es) = map Entry_of es"
proof (induction es arbitrary: s rs)
  case Nil
  then show ?case by (simp add: posted_Nil)
next
  case (Cons e es)
  from Cons.prems
  have "exec_ops s (createEntryTransactions e @ concat (map createEntryTransactions es))
      = Inr (s', rs)"
    by simp
  from exec_one [OF this] obtain row a rs' where
    row: "Entry_of e = Some row" and a: "accounts s (accountId e) = Some a"
    and run: "exec_ops
           (s\<lparr>entries := entries s @ [row],
              accounts := (accounts s)(accountId e \<mapsto> adjust (delta_of e) a)\<rparr>)
           (concat (map createEntryTransactions es)) = Inr (s', rs')"
    by blast
  from Cons.IH [OF run] show ?case
    using row by (simp add: posted_step [OF row a])
qed

lemma handlePOST_cases:
  "(\<exists>rs. handlePOST s b = (posted s (drafts b), Created rs)
      \<and> map Some (List.map_filter Entry_of (drafts b)) = map Entry_of (drafts b))
   \<or> (\<exists>err. handlePOST s b = (s, Unhandled err))"
proof (cases "exec_ops s (concat (map createEntryTransactions (drafts b)))")
  case (Inl err)
  then show ?thesis
    by (simp add: handlePOST_def transaction_def pending_drafts)
next
  case (Inr p)
  obtain s' rs where p: "p = (s', rs)" by (cases p)
  from exec_pending [OF Inr [unfolded p]]
  have "s' = posted s (drafts b)"
    and "map Some (List.map_filter Entry_of (drafts b)) = map Entry_of (drafts b)"
    by simp_all
  then show ?thesis
    using Inr p
    by (cases "fault s") (simp_all add: handlePOST_def transaction_def pending_drafts)
qed

lemma Created_posted:
  assumes "is_Created (snd (handlePOST s b))"
  shows "fst (handlePOST s b) = posted s (drafts b)"
  using assms handlePOST_cases [of s b] by auto

lemma not_Created_unchanged:
  assumes "\<not> is_Created (snd (handlePOST s b))"
  shows "fst (handlePOST s b) = s"
  using assms handlePOST_cases [of s b] by auto

lemma balance_of_posted:
  "balance_of (posted s es) i = map_option (\<lambda>x. x + net_delta i es) (balance_of s i)"
  by (simp add: balance_of_def posted_def adjust_def option.map_comp comp_def)

lemma entries_posted: "entries (posted s es) = entries s @ List.map_filter Entry_of es"
  by (simp add: posted_def)

lemmas post_eval =
  handlePOST_def transaction_def pendingTransactionOperations_def createEntryTransactions_def
  getAccountDirection_def DebitCredit_of_def AccountType_ASSET_def AccountType_LIABILITY_def
  DebitCredit_DEBIT_def DebitCredit_CREDIT_def balance_of_def drafts_def fits_Int_def
  ex_store_def ex_entry_def ex_request_def ex_row_def Let_def

lemma Created_balance:
  "is_Created (snd (handlePOST s b)) \<Longrightarrow>
   balance_of (fst (handlePOST s b)) i =
     map_option (\<lambda>x. x + net_delta i (drafts b)) (balance_of s i)"
  by (simp add: Created_posted balance_of_posted)

lemma Created_entries:
  assumes "is_Created (snd (handlePOST s b))"
  shows "entries (fst (handlePOST s b)) = entries s @ List.map_filter Entry_of (drafts b)"
    and "map Some (List.map_filter Entry_of (drafts b)) = map Entry_of (drafts b)"
proof -
  show "entries (fst (handlePOST s b)) = entries s @ List.map_filter Entry_of (drafts b)"
    using assms by (simp add: Created_posted entries_posted)
  show "map Some (List.map_filter Entry_of (drafts b)) = map Entry_of (drafts b)"
    using assms handlePOST_cases [of s b] by auto
qed

lemma Entry_of_description: "Entry_of e = Some row \<Longrightarrow> entry_description row = None"
  by (auto simp: Entry_of_def)

lemma Entry_of_amount: "Entry_of e = Some row \<Longrightarrow> entry_amount row = amount e"
  by (auto simp: Entry_of_def)

lemma rows_description:
  "map Some rows = map Entry_of es \<Longrightarrow> map entry_description rows = replicate (length es) None"
proof (induction es arbitrary: rows)
  case Nil
  then show ?case by simp
next
  case (Cons e es)
  then obtain r rs where "rows = r # rs" by (cases rows) auto
  with Cons show ?case by (auto dest: Entry_of_description [OF sym])
qed

lemma rows_amount:
  "map Some rows = map Entry_of es \<Longrightarrow> map entry_amount rows = map amount es"
proof (induction es arbitrary: rows)
  case Nil
  then show ?case by simp
next
  case (Cons e es)
  then obtain r rs where "rows = r # rs" by (cases rows) auto
  with Cons show ?case by (auto dest: Entry_of_amount [OF sym])
qed

lemma updates_of_pending:
  "updates_of i (concat (map createEntryTransactions es)) =
     map (\<lambda>e. AccountUpdate (getAccountDirection (accountType e) (debitCredit e) (amount e)) i)
       (filter (\<lambda>e. accountId e = i) es)"
  by (induction es) (auto simp: createEntryTransactions_def)

lemma retype_entries:
  "retype f (s\<lparr>entries := en\<rparr>) = (retype f s)\<lparr>entries := en\<rparr>"
  by (simp add: retype_def)

lemma retype_update:
  "retype f (s\<lparr>accounts := (accounts s)(i \<mapsto> a)\<rparr>) =
   (retype f s)\<lparr>accounts := (accounts (retype f s))
       (i \<mapsto> a\<lparr>account_accountType := f i (account_accountType a)\<rparr>)\<rparr>"
  by (rule Store.equality) (auto simp: retype_def fun_eq_iff)

lemma exec_op_retype:
  "(case exec_op s x of
      Inl err \<Rightarrow> exec_op (retype f s) x = Inl err
    | Inr (s', r) \<Rightarrow> (\<exists>r'. exec_op (retype f s) x = Inr (retype f s', r')))"
proof (cases x)
  case (EntryCreate tid nm dc amt aid)
  then show ?thesis
    by (cases "accounts s aid")
      (auto simp: retype_entries Let_def split: option.splits,
       auto simp: retype_def)
next
  case (AccountUpdate opn aid)
  show ?thesis
  proof (cases "accounts s aid")
    case None
    then show ?thesis
      using AccountUpdate by (simp add: retype_def)
  next
    case (Some a)
    let ?a' = "a\<lparr>account_balance := apply_BalanceOp opn (account_balance a)\<rparr>"
    have r: "accounts (retype f s) aid =
        Some (a\<lparr>account_accountType := f aid (account_accountType a)\<rparr>)"
      using Some by (simp add: retype_def)
    have c: "a\<lparr>account_accountType := f aid (account_accountType a),
               account_balance := apply_BalanceOp opn (account_balance a)\<rparr> =
             ?a'\<lparr>account_accountType := f aid (account_accountType ?a')\<rparr>"
      by (cases a) simp
    show ?thesis
      using AccountUpdate Some
      by (simp add: r retype_update [of f s aid ?a'] c Let_def)
  qed
qed

lemma exec_ops_retype:
  "(case exec_ops s xs of
      Inl err \<Rightarrow> exec_ops (retype f s) xs = Inl err
    | Inr (s', rs) \<Rightarrow> (\<exists>rs'. exec_ops (retype f s) xs = Inr (retype f s', rs')))"
proof (induction xs arbitrary: s)
  case Nil
  show ?case by simp
next
  case (Cons x xs)
  show ?case
  proof (cases "exec_op s x")
    case (Inl err)
    with exec_op_retype [where s = s and x = x and f = f] show ?thesis by simp
  next
    case (Inr p)
    obtain s1 r where p: "p = (s1, r)" by (cases p)
    from exec_op_retype [where s = s and x = x and f = f] Inr p obtain r' where
      x: "exec_op (retype f s) x = Inr (retype f s1, r')"
      by auto
    from Cons.IH [where s = s1] show ?thesis
      using Inr p x by (auto split: sum.splits)
  qed
qed

lemma is_Created_retype:
  "is_Created (snd (handlePOST (retype f s) b)) = is_Created (snd (handlePOST s b))"
proof -
  have f: "fault (retype f s) = fault s"
    by (simp add: retype_def)
  from exec_ops_retype [where s = s and xs = "pendingTransactionOperations b" and f = f]
  show ?thesis
    by (cases "fault s")
      (auto simp: handlePOST_def transaction_def f split: sum.splits)
qed

lemma posted_retype: "posted (retype f s) es = retype f (posted s es)"
proof (rule Store.equality)
  show "accounts (posted (retype f s) es) = accounts (retype f (posted s es))"
  proof (rule ext)
    fix i
    show "accounts (posted (retype f s) es) i = accounts (retype f (posted s es)) i"
      by (cases "accounts s i") (simp_all add: posted_def retype_def adjust_def)
  qed
qed (simp_all add: posted_def retype_def)

lemmas spec_eval =
  debit_sum_def credit_sum_def net_delta_def delta_of_def Entry_of_def

section \<open>Validation of a batch\<close>

text \<open>
  C1, as amended. The posting operation does not compare the sum of the Debit amounts
  with the sum of the Credit amounts: a batch whose two sums differ can be accepted.
  For every batch whose two sums differ: when the posting is accepted, the balance of
  every account changes by the net delta of the batch for it; when the posting is
  rejected, the ledger is as it was before the call.
\<close>

theorem C1_no_balance_check:
  "(\<exists>s' b'. debit_sum (drafts b') \<noteq> credit_sum (drafts b')
        \<and> is_Created (snd (handlePOST s' b')))
   \<and> (debit_sum (drafts b) \<noteq> credit_sum (drafts b) \<longrightarrow>
        (is_Created (snd (handlePOST s b)) \<longrightarrow>
           (\<forall>i. balance_of (fst (handlePOST s b)) i =
                 map_option (\<lambda>x. x + net_delta i (drafts b)) (balance_of s i)))
        \<and> (\<not> is_Created (snd (handlePOST s b)) \<longrightarrow> fst (handlePOST s b) = s))"
proof -
  have "debit_sum (drafts ex_unbalanced) \<noteq> credit_sum (drafts ex_unbalanced)
      \<and> is_Created (snd (handlePOST ex_store ex_unbalanced))"
    by (simp add: post_eval spec_eval ex_unbalanced_def)
  then have "\<exists>s' b'. debit_sum (drafts b') \<noteq> credit_sum (drafts b')
      \<and> is_Created (snd (handlePOST s' b'))"
    by blast
  then show ?thesis
    by (simp add: Created_balance not_Created_unchanged)
qed

theorem C1_no_balance_check_witness:
  "debit_sum (drafts ex_unbalanced) \<noteq> credit_sum (drafts ex_unbalanced)
   \<and> is_Created (snd (handlePOST ex_store ex_unbalanced))
   \<and> balance_of (fst (handlePOST ex_store ex_unbalanced)) 294329 = Some 20100
   \<and> debit_sum (drafts ex_unknown_account) \<noteq> credit_sum (drafts ex_unknown_account)
   \<and> \<not> is_Created (snd (handlePOST ex_store ex_unknown_account))
   \<and> fst (handlePOST ex_store ex_unknown_account) = ex_store"
proof -
  have h: "debit_sum (drafts ex_unbalanced) \<noteq> credit_sum (drafts ex_unbalanced)"
    by (simp add: post_eval spec_eval ex_unbalanced_def)
  have c: "is_Created (snd (handlePOST ex_store ex_unbalanced))"
    by (simp add: post_eval ex_unbalanced_def)
  have n: "net_delta 294329 (drafts ex_unbalanced) = 100"
    by (simp add: post_eval spec_eval ex_unbalanced_def)
  have b: "balance_of ex_store 294329 = Some 20000"
    by (simp add: post_eval)
  have h': "debit_sum (drafts ex_unknown_account) \<noteq> credit_sum (drafts ex_unknown_account)"
    by (simp add: post_eval spec_eval ex_unknown_account_def)
  have c': "\<not> is_Created (snd (handlePOST ex_store ex_unknown_account))"
    by (simp add: post_eval ex_unknown_account_def)
  show ?thesis
    using h c n b h' c' C1_no_balance_check [of ex_unbalanced ex_store]
      C1_no_balance_check [of ex_unknown_account ex_store]
    by simp
qed

text \<open>
  Against C1 as stated: the batch that debits 100 and credits 50 is accepted, and both
  balances change.
\<close>

theorem C1_counterexample:
  "debit_sum (drafts ex_unbalanced) = 100
   \<and> credit_sum (drafts ex_unbalanced) = 50
   \<and> snd (handlePOST ex_store ex_unbalanced) =
       Created
         [EntryRow (ex_row 294329 DEBIT 100),
          AccountRow \<lparr>account_name = Some ''Checkings'', account_accountType = ASSET,
                      account_balance = 20100\<rparr>,
          EntryRow (ex_row 190428 CREDIT 50),
          AccountRow \<lparr>account_name = Some ''Savings'', account_accountType = ASSET,
                      account_balance = 19950\<rparr>]
   \<and> balance_of ex_store 294329 = Some 20000
   \<and> balance_of (fst (handlePOST ex_store ex_unbalanced)) 294329 = Some 20100
   \<and> balance_of ex_store 190428 = Some 20000
   \<and> balance_of (fst (handlePOST ex_store ex_unbalanced)) 190428 = Some 19950"
  by (simp add: post_eval spec_eval ex_unbalanced_def)

text \<open>
  C4, as amended. A batch with fewer than two entries is not rejected for its size: a
  batch of a single entry can be accepted, and so can the empty batch. For every batch
  with fewer than two entries: when the posting is accepted, one entry has been
  created for each entry of the batch and the balance of every account has changed by
  the net delta of the batch for it; when the posting is rejected, the ledger is as it
  was before the call; and the empty batch (also a body without \<open>ledgerEntries\<close>)
  leaves the ledger as it was in either case.
\<close>

theorem C4_small_batches:
  "(\<exists>s' b'. length (drafts b') = 1 \<and> is_Created (snd (handlePOST s' b')))
   \<and> (\<exists>s' b'. drafts b' = [] \<and> is_Created (snd (handlePOST s' b')))
   \<and> (length (drafts b) < 2 \<longrightarrow>
        (is_Created (snd (handlePOST s b)) \<longrightarrow>
           length (entries (fst (handlePOST s b))) = length (entries s) + length (drafts b)
           \<and> (\<forall>i. balance_of (fst (handlePOST s b)) i =
                   map_option (\<lambda>x. x + net_delta i (drafts b)) (balance_of s i)))
        \<and> (\<not> is_Created (snd (handlePOST s b)) \<longrightarrow> fst (handlePOST s b) = s)
        \<and> (drafts b = [] \<longrightarrow> fst (handlePOST s b) = s))"
proof -
  have "length (drafts ex_single) = 1 \<and> is_Created (snd (handlePOST ex_store ex_single))"
    by (simp add: post_eval ex_single_def)
  then have one: "\<exists>s' b'. length (drafts b') = 1 \<and> is_Created (snd (handlePOST s' b'))"
    by blast
  have "drafts (ex_request []) = [] \<and> is_Created (snd (handlePOST ex_store (ex_request [])))"
    by (simp add: post_eval)
  then have none: "\<exists>s' b'. drafts b' = [] \<and> is_Created (snd (handlePOST s' b'))"
    by blast
  have len: "length (entries (fst (handlePOST s b))) = length (entries s) + length (drafts b)"
    if c: "is_Created (snd (handlePOST s b))"
  proof -
    have "length (List.map_filter Entry_of (drafts b)) = length (drafts b)"
      using arg_cong [OF Created_entries(2) [OF c], of length] by simp
    then show ?thesis
      by (simp add: Created_entries(1) [OF c])
  qed
  have empty: "fst (handlePOST s b) = s" if e: "drafts b = []"
  proof (cases "is_Created (snd (handlePOST s b))")
    case True
    then show ?thesis by (simp add: Created_posted e posted_Nil)
  next
    case False
    then show ?thesis by (simp add: not_Created_unchanged)
  qed
  from one none len empty show ?thesis
    by (simp add: Created_balance not_Created_unchanged)
qed

theorem C4_small_batches_witness:
  "length (drafts ex_single) < 2
   \<and> is_Created (snd (handlePOST ex_store ex_single))
   \<and> length (entries (fst (handlePOST ex_store ex_single))) = 1
   \<and> balance_of (fst (handlePOST ex_store ex_single)) 110472 = Some 20500
   \<and> length (drafts (ex_request [])) < 2
   \<and> drafts (ex_request []) = []
   \<and> fst (handlePOST ex_store (ex_request [])) = ex_store
   \<and> length (drafts (ex_request [ex_entry 999 ''ASSET'' ''DEBIT'' 100])) < 2
   \<and> \<not> is_Created (snd (handlePOST ex_store (ex_request [ex_entry 999 ''ASSET'' ''DEBIT'' 100])))
   \<and> fst (handlePOST ex_store (ex_request [ex_entry 999 ''ASSET'' ''DEBIT'' 100])) = ex_store"
proof -
  have h: "length (drafts ex_single) < 2"
    by (simp add: post_eval ex_single_def)
  have c: "is_Created (snd (handlePOST ex_store ex_single))"
    by (simp add: post_eval ex_single_def)
  have l: "length (entries ex_store) + length (drafts ex_single) = 1"
    by (simp add: post_eval ex_single_def)
  have n: "net_delta 110472 (drafts ex_single) = 500"
    by (simp add: post_eval spec_eval ex_single_def)
  have b: "balance_of ex_store 110472 = Some 20000"
    by (simp add: post_eval)
  have e: "drafts (ex_request []) = []"
    by (simp add: post_eval)
  have h'': "length (drafts (ex_request [ex_entry 999 ''ASSET'' ''DEBIT'' 100])) < 2"
    by (simp add: post_eval)
  have c'': "\<not> is_Created
      (snd (handlePOST ex_store (ex_request [ex_entry 999 ''ASSET'' ''DEBIT'' 100])))"
    by (simp add: post_eval)
  show ?thesis
    using h c l n b e h'' c'' C4_small_batches [of ex_single ex_store]
      C4_small_batches [of "ex_request []" ex_store]
      C4_small_batches [of "ex_request [ex_entry 999 ''ASSET'' ''DEBIT'' 100]" ex_store]
    by simp
qed

text \<open>
  Against C4 as stated: the batch of the single entry that credits 500 to the
  liability account 110472 is accepted, its entry is created and the balance changes;
  the empty batch is accepted.
\<close>

theorem C4_counterexample:
  "length (drafts ex_single) = 1
   \<and> snd (handlePOST ex_store ex_single) =
       Created
         [EntryRow (ex_row 110472 CREDIT 500),
          AccountRow \<lparr>account_name = Some ''Credit Card'', account_accountType = LIABILITY,
                      account_balance = 20500\<rparr>]
   \<and> entries (fst (handlePOST ex_store ex_single)) = [ex_row 110472 CREDIT 500]
   \<and> balance_of ex_store 110472 = Some 20000
   \<and> balance_of (fst (handlePOST ex_store ex_single)) 110472 = Some 20500
   \<and> handlePOST ex_store (ex_request []) = (ex_store, Created [])"
  by (simp add: post_eval ex_single_def)

text \<open>
  C8, as amended. The posting operation does not check the sign of an amount: a batch
  with an entry of amount zero can be accepted. For every batch with an entry whose
  amount is zero or negative: when the posting is accepted, the created entries carry
  the amounts of the batch as they were given (amounts are integers here); when the
  posting is rejected, the ledger is as it was before the call.
\<close>

theorem C8_no_amount_check:
  "(\<exists>s' b'. (\<exists>e\<in>set (drafts b'). amount e = 0) \<and> is_Created (snd (handlePOST s' b')))
   \<and> ((\<exists>e\<in>set (drafts b). amount e \<le> 0) \<longrightarrow>
        (is_Created (snd (handlePOST s b)) \<longrightarrow>
           map entry_amount (entries (fst (handlePOST s b))) =
             map entry_amount (entries s) @ map amount (drafts b))
        \<and> (\<not> is_Created (snd (handlePOST s b)) \<longrightarrow> fst (handlePOST s b) = s))"
proof -
  have "(\<exists>e\<in>set (drafts ex_zero). amount e = 0)
      \<and> is_Created (snd (handlePOST ex_store ex_zero))"
    by (simp add: post_eval ex_zero_def)
  then have zero: "\<exists>s' b'. (\<exists>e\<in>set (drafts b'). amount e = 0)
      \<and> is_Created (snd (handlePOST s' b'))"
    by blast
  have "map entry_amount (entries (fst (handlePOST s b))) =
           map entry_amount (entries s) @ map amount (drafts b)"
    if c: "is_Created (snd (handlePOST s b))"
    using Created_entries [OF c] by (simp add: rows_amount)
  with zero show ?thesis
    by (simp add: not_Created_unchanged)
qed

theorem C8_no_amount_check_witness:
  "(\<exists>e\<in>set (drafts ex_zero). amount e \<le> 0)
   \<and> is_Created (snd (handlePOST ex_store ex_zero))
   \<and> map entry_amount (entries (fst (handlePOST ex_store ex_zero))) = [0, 0]
   \<and> (\<exists>e\<in>set (drafts (ex_request [ex_entry 999 ''ASSET'' ''DEBIT'' 0])). amount e \<le> 0)
   \<and> \<not> is_Created (snd (handlePOST ex_store (ex_request [ex_entry 999 ''ASSET'' ''DEBIT'' 0])))
   \<and> fst (handlePOST ex_store (ex_request [ex_entry 999 ''ASSET'' ''DEBIT'' 0])) = ex_store"
proof -
  have h: "\<exists>e\<in>set (drafts ex_zero). amount e \<le> 0"
    by (simp add: post_eval ex_zero_def)
  have c: "is_Created (snd (handlePOST ex_store ex_zero))"
    by (simp add: post_eval ex_zero_def)
  have m: "map entry_amount (entries ex_store) @ map amount (drafts ex_zero) = [0, 0]"
    by (simp add: post_eval ex_zero_def)
  have h': "\<exists>e\<in>set (drafts (ex_request [ex_entry 999 ''ASSET'' ''DEBIT'' 0])). amount e \<le> 0"
    by (simp add: post_eval)
  have c': "\<not> is_Created
      (snd (handlePOST ex_store (ex_request [ex_entry 999 ''ASSET'' ''DEBIT'' 0])))"
    by (simp add: post_eval)
  show ?thesis
    using h c m h' c' C8_no_amount_check [of ex_zero ex_store]
      C8_no_amount_check [of "ex_request [ex_entry 999 ''ASSET'' ''DEBIT'' 0]" ex_store]
    by simp
qed

text \<open>
  Against C8 as stated: the batch of two entries of amount 0 is accepted and both
  zero-amount entries are created.
\<close>

theorem C8_counterexample:
  "map amount (drafts ex_zero) = [0, 0]
   \<and> snd (handlePOST ex_store ex_zero) =
       Created
         [EntryRow (ex_row 294329 DEBIT 0),
          AccountRow \<lparr>account_name = Some ''Checkings'', account_accountType = ASSET,
                      account_balance = 20000\<rparr>,
          EntryRow (ex_row 190428 CREDIT 0),
          AccountRow \<lparr>account_name = Some ''Savings'', account_accountType = ASSET,
                      account_balance = 20000\<rparr>]
   \<and> entries (fst (handlePOST ex_store ex_zero)) =
       [ex_row 294329 DEBIT 0, ex_row 190428 CREDIT 0]"
  by (simp add: post_eval ex_zero_def)

section \<open>Direction of a balance change\<close>

text \<open>
  C2, as amended. The direction of a balance change follows the account type that the
  entry of the request carries, not the type of the account in the store. For every
  amount \<open>x > 0\<close>, every existing account and every accepted posting of a single
  entry of amount \<open>x\<close> to that account: when the entry says Asset, a Debit raises the
  balance of the account by exactly \<open>x\<close> and a Credit lowers it by exactly \<open>x\<close>; when
  the entry says Liability, a Debit lowers the balance by exactly \<open>x\<close> and a Credit
  raises it by exactly \<open>x\<close>. The rule of the claim therefore holds for an account
  whose type the entry states as the store has it.
\<close>

theorem C2_direction_by_request:
  assumes "drafts b = [e]"
    and "accounts s (accountId e) = Some a"
    and "0 < amount e"
    and "is_Created (snd (handlePOST s b))"
  shows
   "(accountType e = AccountType_ASSET \<and> debitCredit e = DebitCredit_DEBIT \<longrightarrow>
       balance_of (fst (handlePOST s b)) (accountId e) = Some (account_balance a + amount e))
    \<and> (accountType e = AccountType_ASSET \<and> debitCredit e = DebitCredit_CREDIT \<longrightarrow>
       balance_of (fst (handlePOST s b)) (accountId e) = Some (account_balance a - amount e))
    \<and> (accountType e = AccountType_LIABILITY \<and> debitCredit e = DebitCredit_DEBIT \<longrightarrow>
       balance_of (fst (handlePOST s b)) (accountId e) = Some (account_balance a - amount e))
    \<and> (accountType e = AccountType_LIABILITY \<and> debitCredit e = DebitCredit_CREDIT \<longrightarrow>
       balance_of (fst (handlePOST s b)) (accountId e) = Some (account_balance a + amount e))"
proof -
  have "balance_of (fst (handlePOST s b)) (accountId e) =
      map_option (\<lambda>x. x + net_delta (accountId e) (drafts b)) (balance_of s (accountId e))"
    using assms(4) by (rule Created_balance)
  then have bal: "balance_of (fst (handlePOST s b)) (accountId e) =
      Some (account_balance a + delta_of e)"
    using assms(1,2) by (simp add: balance_of_def net_delta_def)
  show ?thesis
    unfolding bal
    by (simp add: delta_of_def getAccountDirection_def AccountType_ASSET_def
        AccountType_LIABILITY_def DebitCredit_DEBIT_def DebitCredit_CREDIT_def)
qed

theorem C2_direction_by_request_witness:
  "map_option account_accountType (accounts ex_store 294329) = Some ASSET
   \<and> is_Created (snd (handlePOST ex_store (ex_request [ex_entry 294329 ''ASSET'' ''DEBIT'' 1234])))
   \<and> balance_of (fst (handlePOST ex_store (ex_request [ex_entry 294329 ''ASSET'' ''DEBIT'' 1234])))
       294329 = Some 21234
   \<and> is_Created (snd (handlePOST ex_store (ex_request [ex_entry 294329 ''ASSET'' ''CREDIT'' 1234])))
   \<and> balance_of (fst (handlePOST ex_store (ex_request [ex_entry 294329 ''ASSET'' ''CREDIT'' 1234])))
       294329 = Some 18766
   \<and> map_option account_accountType (accounts ex_store 110472) = Some LIABILITY
   \<and> is_Created (snd (handlePOST ex_store (ex_request [ex_entry 110472 ''LIABILITY'' ''DEBIT'' 1234])))
   \<and> balance_of (fst (handlePOST ex_store (ex_request [ex_entry 110472 ''LIABILITY'' ''DEBIT'' 1234])))
       110472 = Some 18766
   \<and> is_Created (snd (handlePOST ex_store (ex_request [ex_entry 110472 ''LIABILITY'' ''CREDIT'' 1234])))
   \<and> balance_of (fst (handlePOST ex_store (ex_request [ex_entry 110472 ''LIABILITY'' ''CREDIT'' 1234])))
       110472 = Some 21234"
proof -
  let ?A = "\<lparr>account_name = Some ''Checkings'', account_accountType = ASSET,
             account_balance = 20000\<rparr>"
  let ?L = "\<lparr>account_name = Some ''Credit Card'', account_accountType = LIABILITY,
             account_balance = 20000\<rparr>"
  have d: "drafts (ex_request [x]) = [x]" for x
    by (simp add: post_eval)
  have a: "accounts ex_store (accountId (ex_entry 294329 ty dc 1234)) = Some ?A" for ty dc
    by (simp add: post_eval)
  have l: "accounts ex_store (accountId (ex_entry 110472 ty dc 1234)) = Some ?L" for ty dc
    by (simp add: post_eval)
  have p: "0 < amount (ex_entry i ty dc 1234)" for i ty dc
    by (simp add: post_eval)
  have c1: "is_Created (snd (handlePOST ex_store
      (ex_request [ex_entry 294329 ''ASSET'' ''DEBIT'' 1234])))"
    by (simp add: post_eval)
  have c2: "is_Created (snd (handlePOST ex_store
      (ex_request [ex_entry 294329 ''ASSET'' ''CREDIT'' 1234])))"
    by (simp add: post_eval)
  have c3: "is_Created (snd (handlePOST ex_store
      (ex_request [ex_entry 110472 ''LIABILITY'' ''DEBIT'' 1234])))"
    by (simp add: post_eval)
  have c4: "is_Created (snd (handlePOST ex_store
      (ex_request [ex_entry 110472 ''LIABILITY'' ''CREDIT'' 1234])))"
    by (simp add: post_eval)
  have t: "map_option account_accountType (accounts ex_store 294329) = Some ASSET
      \<and> map_option account_accountType (accounts ex_store 110472) = Some LIABILITY"
    by (simp add: post_eval)
  show ?thesis
    using t c1 c2 c3 c4
      C2_direction_by_request [OF d a p c1]
      C2_direction_by_request [OF d a p c2]
      C2_direction_by_request [OF d l p c3]
      C2_direction_by_request [OF d l p c4]
    by (simp add: ex_entry_def AccountType_ASSET_def AccountType_LIABILITY_def
        DebitCredit_DEBIT_def DebitCredit_CREDIT_def)
qed

text \<open>
  Against C2 as stated: account 110472 is a Liability account in the store. A Debit of
  500 to it that the request calls an Asset entry raises its balance from 20000 to
  20500, and such a Credit lowers it to 19500.
\<close>

theorem C2_counterexample:
  "map_option account_accountType (accounts ex_store 110472) = Some LIABILITY
   \<and> balance_of ex_store 110472 = Some 20000
   \<and> is_Created (snd (handlePOST ex_store ex_debit_liability_as_asset))
   \<and> balance_of (fst (handlePOST ex_store ex_debit_liability_as_asset)) 110472 = Some 20500
   \<and> is_Created (snd (handlePOST ex_store ex_credit_liability_as_asset))
   \<and> balance_of (fst (handlePOST ex_store ex_credit_liability_as_asset)) 110472 = Some 19500"
  by (simp add: post_eval ex_debit_liability_as_asset_def ex_credit_liability_as_asset_def)

text \<open>
  C7, as amended. On the four declared pairs the resolver yields an increment for
  (Asset, Debit) and (Liability, Credit) and a decrement for (Asset, Credit) and
  (Liability, Debit). For an account type that is neither Asset nor Liability it does
  not fail: it yields no adjustment (\<open>undefined\<close>), whatever the direction and the
  amount, and the store leaves a balance as it is under no adjustment.
\<close>

theorem C7_resolver_table:
  "getAccountDirection AccountType_ASSET DebitCredit_DEBIT x = Some (increment x)
   \<and> getAccountDirection AccountType_ASSET DebitCredit_CREDIT x = Some (decrement x)
   \<and> getAccountDirection AccountType_LIABILITY DebitCredit_DEBIT x = Some (decrement x)
   \<and> getAccountDirection AccountType_LIABILITY DebitCredit_CREDIT x = Some (increment x)
   \<and> (t \<noteq> AccountType_ASSET \<and> t \<noteq> AccountType_LIABILITY \<longrightarrow>
        getAccountDirection t d x = None
        \<and> apply_BalanceOp (getAccountDirection t d x) bal = bal)"
  by (simp add: getAccountDirection_def AccountType_ASSET_def AccountType_LIABILITY_def
      DebitCredit_DEBIT_def DebitCredit_CREDIT_def)

theorem C7_resolver_table_witness:
  "''EQUITY'' \<noteq> AccountType_ASSET
   \<and> ''EQUITY'' \<noteq> AccountType_LIABILITY
   \<and> getAccountDirection ''EQUITY'' DebitCredit_DEBIT 100 = None
   \<and> apply_BalanceOp (getAccountDirection ''EQUITY'' DebitCredit_DEBIT 100) 20000 = 20000"
proof -
  have h: "''EQUITY'' \<noteq> AccountType_ASSET \<and> ''EQUITY'' \<noteq> AccountType_LIABILITY"
    by (simp add: AccountType_ASSET_def AccountType_LIABILITY_def)
  show ?thesis
    using h C7_resolver_table [of 100 "''EQUITY''" DebitCredit_DEBIT 20000]
    by simp
qed

text \<open>
  Against C7 as stated: for the account type \<open>EQUITY\<close> the resolver yields no
  adjustment and no error; the posting that carries it is accepted, its entry is
  created and the balance of its account stays 20000.
\<close>

theorem C7_counterexample:
  "getAccountDirection ''EQUITY'' DebitCredit_DEBIT 100 = None
   \<and> snd (handlePOST ex_store ex_equity) =
       Created
         [EntryRow (ex_row 294329 DEBIT 100),
          AccountRow \<lparr>account_name = Some ''Checkings'', account_accountType = ASSET,
                      account_balance = 20000\<rparr>,
          EntryRow (ex_row 190428 CREDIT 100),
          AccountRow \<lparr>account_name = Some ''Savings'', account_accountType = ASSET,
                      account_balance = 19900\<rparr>]
   \<and> balance_of ex_store 294329 = Some 20000
   \<and> balance_of (fst (handlePOST ex_store ex_equity)) 294329 = Some 20000"
  by (simp add: post_eval ex_equity_def)

text \<open>
  C5, as amended. The signed delta of an entry is resolved from the account type that
  the entry of the request carries (\<open>net_delta\<close> is computed from the request alone).
  The type of the account in the store is never read: changing the stored types of the
  accounts changes neither whether a posting is accepted nor the entries and balances
  it leaves.
\<close>

theorem C5_request_type_decides:
  "fst (handlePOST (retype f s) b) = retype f (fst (handlePOST s b))
   \<and> is_Created (snd (handlePOST (retype f s) b)) = is_Created (snd (handlePOST s b))
   \<and> (is_Created (snd (handlePOST s b)) \<longrightarrow>
        (\<forall>i. balance_of (fst (handlePOST s b)) i =
              map_option (\<lambda>x. x + net_delta i (drafts b)) (balance_of s i)))"
proof -
  have same: "is_Created (snd (handlePOST (retype f s) b)) = is_Created (snd (handlePOST s b))"
    by (rule is_Created_retype)
  have "fst (handlePOST (retype f s) b) = retype f (fst (handlePOST s b))"
  proof (cases "is_Created (snd (handlePOST s b))")
    case True
    with same have "is_Created (snd (handlePOST (retype f s) b))" by simp
    then show ?thesis using True by (simp add: Created_posted posted_retype)
  next
    case False
    with same have "\<not> is_Created (snd (handlePOST (retype f s) b))" by simp
    then show ?thesis using False by (simp add: not_Created_unchanged)
  qed
  with same show ?thesis by (simp add: Created_balance)
qed

theorem C5_request_type_decides_witness:
  "is_Created (snd (handlePOST ex_store ex_retyped))
   \<and> balance_of (fst (handlePOST ex_store ex_retyped)) 294329 = Some 18766
   \<and> balance_of (fst (handlePOST (retype (\<lambda>i t. LIABILITY) ex_store) ex_retyped)) 294329
       = Some 18766"
proof -
  have c: "is_Created (snd (handlePOST ex_store ex_retyped))"
    by (simp add: post_eval ex_retyped_def)
  have n: "net_delta 294329 (drafts ex_retyped) = - 1234"
    by (simp add: post_eval spec_eval ex_retyped_def)
  have b: "balance_of ex_store 294329 = Some 20000"
    by (simp add: post_eval)
  have r: "balance_of (retype f s) i = balance_of s i" for f s i
    by (simp add: balance_of_def retype_def option.map_comp comp_def)
  show ?thesis
    using c n b C5_request_type_decides [of "\<lambda>i t. LIABILITY" ex_store ex_retyped]
    by (simp add: r)
qed

text \<open>
  Against C5 as stated: account 294329 is stored as an Asset account; the README
  request, which says Asset, raises its balance to 21234, and the same request saying
  Liability for that entry lowers it to 18766.
\<close>

theorem C5_counterexample:
  "map_option account_accountType (accounts ex_store 294329) = Some ASSET
   \<and> balance_of ex_store 294329 = Some 20000
   \<and> balance_of (fst (handlePOST ex_store ex_body)) 294329 = Some 21234
   \<and> balance_of (fst (handlePOST ex_store ex_retyped)) 294329 = Some 18766"
  by (simp add: post_eval ex_body_def ex_retyped_def)

section \<open>Effect of a posting\<close>



text \<open>
  C6, as amended. The batch handed to the store contains one balance update for each
  entry, not one for each distinct account: the updates of an account are the
  resolved adjustments of the entries that target it, in the order of the batch. The
  store applies them one after the other as increments and decrements, so for an
  accepted posting the final balance of an account is its initial balance plus the
  algebraic sum of its signed deltas.
\<close>

theorem C6_one_update_per_entry:
  "updates_of i (pendingTransactionOperations b) =
     map (\<lambda>e. AccountUpdate (getAccountDirection (accountType e) (debitCredit e) (amount e)) i)
       (filter (\<lambda>e. accountId e = i) (drafts b))
   \<and> (is_Created (snd (handlePOST s b)) \<longrightarrow>
        balance_of (fst (handlePOST s b)) i =
          map_option (\<lambda>x. x + net_delta i (drafts b)) (balance_of s i))"
  by (simp add: pending_drafts updates_of_pending Created_balance)

theorem C6_one_update_per_entry_witness:
  "is_Created (snd (handlePOST ex_store ex_same_account))
   \<and> balance_of (fst (handlePOST ex_store ex_same_account)) 294329 = Some 20150
   \<and> length (updates_of 294329 (pendingTransactionOperations ex_same_account)) = 2"
proof -
  have c: "is_Created (snd (handlePOST ex_store ex_same_account))"
    by (simp add: post_eval ex_same_account_def)
  have n: "net_delta 294329 (drafts ex_same_account) = 150"
    by (simp add: post_eval spec_eval ex_same_account_def)
  have b: "balance_of ex_store 294329 = Some 20000"
    by (simp add: post_eval)
  have d: "length (filter (\<lambda>e. accountId e = 294329) (drafts ex_same_account)) = 2"
    by (simp add: post_eval ex_same_account_def)
  show ?thesis
    using c n b d C6_one_update_per_entry [of 294329 ex_same_account ex_store]
    by simp
qed

text \<open>
  Against C6 as stated: a batch with two entries for account 294329 hands the store
  two updates of that account, an increment of 100 and an increment of 50.
\<close>

theorem C6_counterexample:
  "updates_of 294329 (pendingTransactionOperations ex_same_account) =
     [AccountUpdate (Some (increment 100)) 294329, AccountUpdate (Some (increment 50)) 294329]
   \<and> length (updates_of 294329 (pendingTransactionOperations ex_same_account)) = 2
   \<and> is_Created (snd (handlePOST ex_store ex_same_account))"
  by (simp add: post_eval ex_same_account_def)

text \<open>
  C9. Starting from the Asset accounts 294329 and 190428, both with balance 20000, the
  posting of the batch that debits 1234 to the first and credits 1234 to the second
  succeeds, creates both entries, and leaves the balances 21234 and 18766.
\<close>

theorem C9_example:
  "snd (handlePOST ex_store ex_body) =
     Created
       [EntryRow (ex_row 294329 DEBIT 1234),
        AccountRow \<lparr>account_name = Some ''Checkings'', account_accountType = ASSET,
                    account_balance = 21234\<rparr>,
        EntryRow (ex_row 190428 CREDIT 1234),
        AccountRow \<lparr>account_name = Some ''Savings'', account_accountType = ASSET,
                    account_balance = 18766\<rparr>]
   \<and> entries (fst (handlePOST ex_store ex_body)) =
       [ex_row 294329 DEBIT 1234, ex_row 190428 CREDIT 1234]
   \<and> map_option account_accountType (accounts ex_store 294329) = Some ASSET
   \<and> map_option account_accountType (accounts ex_store 190428) = Some ASSET
   \<and> balance_of ex_store 294329 = Some 20000
   \<and> balance_of ex_store 190428 = Some 20000
   \<and> balance_of (fst (handlePOST ex_store ex_body)) 294329 = Some 21234
   \<and> balance_of (fst (handlePOST ex_store ex_body)) 190428 = Some 18766"
  by (simp add: post_eval ex_body_def)

text \<open>
  C10. The entries that a posting creates carry no description: after an accepted
  posting the descriptions of the entries of the store are those it had before,
  followed by one null for each entry of the batch. The description of the request
  body is not used: the posting is the same for every value of it.
\<close>

theorem C10_no_description:
  "(is_Created (snd (handlePOST s b)) \<longrightarrow>
      map entry_description (entries (fst (handlePOST s b))) =
        map entry_description (entries s) @ replicate (length (drafts b)) None)
   \<and> handlePOST s (b\<lparr>body_description := d\<rparr>) = handlePOST s b"
proof
  show "is_Created (snd (handlePOST s b)) \<longrightarrow>
      map entry_description (entries (fst (handlePOST s b))) =
        map entry_description (entries s) @ replicate (length (drafts b)) None"
  proof
    assume c: "is_Created (snd (handlePOST s b))"
    from Created_entries [OF c] show
      "map entry_description (entries (fst (handlePOST s b))) =
        map entry_description (entries s) @ replicate (length (drafts b)) None"
      by (simp add: rows_description)
  qed
  show "handlePOST s (b\<lparr>body_description := d\<rparr>) = handlePOST s b"
    by (simp add: handlePOST_def pendingTransactionOperations_def)
qed

theorem C10_no_description_witness:
  "is_Created (snd (handlePOST ex_store ex_body))
   \<and> map entry_description (entries (fst (handlePOST ex_store ex_body))) = [None, None]
   \<and> handlePOST ex_store (ex_body\<lparr>body_description := ''Other words''\<rparr>) =
       handlePOST ex_store ex_body"
proof -
  have c: "is_Created (snd (handlePOST ex_store ex_body))"
    by (simp add: post_eval ex_body_def)
  have m: "map entry_description (entries ex_store) @ replicate (length (drafts ex_body)) None
      = [None, None]"
    by (simp add: post_eval ex_body_def)
  show ?thesis
    using c m C10_no_description [of ex_store ex_body "''Other words''"]
    by simp
qed

end
